theory Spec2Isabelle
  imports Main "HOL-Library.AList"
begin

section \<open>Values and errors\<close>

text \<open>
  The cog keeps its settings in the host's configuration store, whose values are JSON-like
  Python values, and its usage cache is a plain \<^verbatim>\<open>dict\<close>. A dictionary is an
  association list: Python dictionaries keep insertion order and have unique keys, which
  \<^const>\<open>AList.update\<close> and \<^const>\<open>AList.delete\<close> respect.
\<close>

datatype pyval =
    PBool bool
  | PInt int
  | PStr string
  | PList "pyval list"
  | PDict "(string \<times> pyval) list"

datatype error = KeyError | TypeError

type_synonym user_data = "(string \<times> pyval) list"
type_synonym users_table = "(int \<times> user_data) list"

text \<open>Truth value of a Python value, as \<^verbatim>\<open>and\<close> and \<^verbatim>\<open>or\<close> test it.\<close>

fun truthy :: "pyval \<Rightarrow> bool" where
  "truthy (PBool b) = b"
| "truthy (PInt n) = (n \<noteq> 0)"
| "truthy (PStr t) = (t \<noteq> [])"
| "truthy (PList xs) = (xs \<noteq> [])"
| "truthy (PDict d) = (d \<noteq> [])"

text \<open>
  \<^verbatim>\<open>v += 1\<close>: integers (and booleans, a subclass of \<^verbatim>\<open>int\<close>) are incremented; a
  string, list or dictionary raises \<^verbatim>\<open>TypeError\<close>.
\<close>

fun iadd_one :: "pyval \<Rightarrow> error + pyval" where
  "iadd_one (PInt n) = Inr (PInt (n + 1))"
| "iadd_one (PBool b) = Inr (PInt ((if b then 1 else 0) + 1))"
| "iadd_one (PStr t) = Inl TypeError"
| "iadd_one (PList xs) = Inl TypeError"
| "iadd_one (PDict d) = Inl TypeError"

text \<open>\<^verbatim>\<open>v >= amount\<close> for an integer \<^verbatim>\<open>amount\<close>.\<close>

fun ge_int :: "pyval \<Rightarrow> int \<Rightarrow> error + bool" where
  "ge_int (PInt n) a = Inr (a \<le> n)"
| "ge_int (PBool b) a = Inr (a \<le> (if b then 1 else 0))"
| "ge_int (PStr t) a = Inl TypeError"
| "ge_int (PList xs) a = Inl TypeError"
| "ge_int (PDict d) a = Inl TypeError"

section \<open>The configuration structure\<close>

text \<open>
  \<^verbatim>\<open>_config_structure\<close>: a dictionary with the two top-level keys \<^verbatim>\<open>"global"\<close> and
  \<^verbatim>\<open>"user"\<close>, each holding the defaults registered for that scope.
\<close>

definition default_message :: string where
  "default_message =
     ''Please do not use this command anymore.'' @ [CHR 0x0A, CHR 0x0A] @
     ''Continued usage of this command will result in you being blacklisted from using '' @
     ''my commands.''"

definition config_structure :: "(string \<times> pyval) list" where
  "config_structure =
     [(''global'', PDict
         [(''enabled'', PBool False),
          (''amount'', PInt 5),
          (''clear_usage'', PBool True),
          (''whitelist'', PDict
             [(''commands'', PList []), (''cogs'', PList []), (''users'', PList [])]),
          (''ignore'', PDict [(''guilds'', PList []), (''channels'', PList [])]),
          (''message'', PStr default_message),
          (''message_enabled'', PBool True)]),
      (''user'', PDict [(''errors'', PDict [])])]"

text \<open>The default registered for a global key (\<^verbatim>\<open>register_global\<close>).\<close>

definition global_default :: "string \<Rightarrow> pyval option" where
  "global_default k =
     (case map_of config_structure ''global'' of
        Some (PDict g) \<Rightarrow> map_of g k
      | _ \<Rightarrow> None)"

section \<open>Commands, contexts and the state\<close>

record cog =
  cog_name :: string
  has_error_handler :: bool

record command =
  qualified_name :: string
  name :: string
  cog :: "cog option"
  has_on_error :: bool

text \<open>
  The invocation context: the command, the author's ID, and the IDs of the guild and the
  channel, each \<open>None\<close> when the context has none (a direct message has no guild).
\<close>

record Context =
  command :: command
  author :: int
  guild :: "int option"
  channel :: "int option"

text \<open>
  The state the cog reads and writes. The \<open>cfg_\<close>, \<open>whitelist_\<close> and \<open>ignore_\<close> fields
  are the global settings of \<^verbatim>\<open>self.config\<close>; \<open>all_users\<close> is the persisted per-user
  table that \<^verbatim>\<open>config.all_users()\<close> returns; \<open>cache\<close> is \<^verbatim>\<open>self._cache\<close>;
  \<open>task_running\<close> says whether the \<^verbatim>\<open>clear_cache\<close> loop is scheduled. The host's part
  is the owner list, the bot blacklist, the messages sent with \<^verbatim>\<open>ctx.send\<close> by the
  listener (channel and content) and the events dispatched.
\<close>

record state =
  cfg_enabled :: bool
  cfg_amount :: int
  cfg_clear_usage :: bool
  whitelist_commands :: "string list"
  whitelist_cogs :: "string list"
  whitelist_users :: "int list"
  ignore_guilds :: "int list"
  ignore_channels :: "int list"
  cfg_message :: pyval
  cfg_message_enabled :: bool
  all_users :: users_table
  cache :: users_table
  first_run :: bool
  task_running :: bool
  owner_ids :: "int list"
  blacklist :: "int set"
  sent :: "(int option \<times> pyval) list"
  dispatched :: "(string \<times> int \<times> command) list"

definition is_owner :: "state \<Rightarrow> int \<Rightarrow> bool" where
  "is_owner s u = (u \<in> set (owner_ids s))"

section \<open>The error listener\<close>

text \<open>
  The guild block of \<^verbatim>\<open>on_command_error\<close>: only inside a guild are the ignore lists
  read; the channel list is read when the context has a channel.
\<close>

definition ignored :: "state \<Rightarrow> Context \<Rightarrow> bool" where
  "ignored s ctx =
     (case guild ctx of
        None \<Rightarrow> False
      | Some gid \<Rightarrow>
          (if gid \<in> set (ignore_guilds s) then True
           else (case channel ctx of
                   None \<Rightarrow> False
                 | Some cid \<Rightarrow> cid \<in> set (ignore_channels s))))"

text \<open>
  The counting block: a user absent from the cache gets the dictionary \<^verbatim>\<open>{name: 1}\<close>;
  otherwise the entry is incremented, and a missing entry (\<^verbatim>\<open>KeyError\<close>) is set to 1.
  Any other exception of the increment leaves the handler.
\<close>

definition count_error :: "users_table \<Rightarrow> int \<Rightarrow> string \<Rightarrow> error + users_table" where
  "count_error c uid nm =
     (case map_of c uid of
        None \<Rightarrow> Inr (AList.update uid [(nm, PInt 1)] c)
      | Some d \<Rightarrow>
          (case map_of d nm of
             None \<Rightarrow> Inr (AList.update uid (AList.update nm (PInt 1) d) c)
           | Some v \<Rightarrow>
               (case iadd_one v of
                  Inl e \<Rightarrow> Inl e
                | Inr v' \<Rightarrow> Inr (AList.update uid (AList.update nm v' d) c))))"

text \<open>
  The threshold test \<^verbatim>\<open>(am := self._cache[user.id].get(ctx.command.name)) and am >= amount\<close>.
\<close>

definition threshold_reached :: "users_table \<Rightarrow> int \<Rightarrow> string \<Rightarrow> int \<Rightarrow> error + bool" where
  "threshold_reached c uid nm amount =
     (case map_of c uid of
        None \<Rightarrow> Inl KeyError
      | Some d \<Rightarrow>
          (case map_of d nm of
             None \<Rightarrow> Inr False
           | Some am \<Rightarrow> (if truthy am then ge_int am amount else Inr False)))"

text \<open>
  \<^verbatim>\<open>on_command_error(ctx, err, unhandled_by_cog)\<close>. Of \<^verbatim>\<open>err\<close> the handler reads only
  whether it is a \<^verbatim>\<open>CommandInvokeError\<close>. The result is the exception that leaves the
  handler, if any, and the state it leaves behind.
\<close>

definition on_command_error ::
  "state \<Rightarrow> Context \<Rightarrow> bool \<Rightarrow> bool \<Rightarrow> error option \<times> state" where
  "on_command_error s ctx is_invoke_error unhandled_by_cog =
     (if (if unhandled_by_cog then False else has_on_error (command ctx)) then (None, s)
      else if (if unhandled_by_cog then False
               else (case cog (command ctx) of None \<Rightarrow> False | Some c \<Rightarrow> has_error_handler c))
      then (None, s)
      else if is_invoke_error = False then (None, s)
      else if cog (command ctx) = None then (None, s)
      else if cfg_enabled s = False then (None, s)
      else if is_owner s (author ctx) then (None, s)
      else if ignored s ctx then (None, s)
      else if qualified_name (command ctx) \<in> set (whitelist_commands s) then (None, s)
      else if author ctx \<in> set (whitelist_users s) then (None, s)
      else
        let s1 = (if cfg_message_enabled s
                  then s\<lparr>sent := sent s @ [(channel ctx, cfg_message s)]\<rparr> else s)
        in (case count_error (cache s1) (author ctx) (qualified_name (command ctx)) of
              Inl e \<Rightarrow> (Some e, s1)
            | Inr c \<Rightarrow>
                let s2 = s1\<lparr>cache := c\<rparr>
                in (case threshold_reached c (author ctx) (name (command ctx)) (cfg_amount s2) of
                      Inl e \<Rightarrow> (Some e, s2)
                    | Inr False \<Rightarrow> (None, s2)
                    | Inr True \<Rightarrow>
                        (None, s2\<lparr>blacklist := insert (author ctx) (blacklist s2),
                                   dispatched := dispatched s2 @
                                     [(''error_blacklist'', author ctx, command ctx)]\<rparr>))))"

text \<open>The error counter of a user for a command name, 0 when there is no entry.\<close>

definition counter :: "state \<Rightarrow> int \<Rightarrow> string \<Rightarrow> int" where
  "counter s u c =
     (case map_of (cache s) u of
        None \<Rightarrow> 0
      | Some d \<Rightarrow>
          (case map_of d c of
             Some (PInt n) \<Rightarrow> n
           | Some (PBool b) \<Rightarrow> (if b then 1 else 0)
           | _ \<Rightarrow> 0))"

section \<open>Loading and the daily task\<close>

text \<open>
  The state of a bot on which the cog has never stored anything: the global settings are
  the defaults of \<^verbatim>\<open>_config_structure\<close>, and \<^verbatim>\<open>__init__\<close> has set an empty cache and
  \<^verbatim>\<open>first_run\<close>. The host's owners, its blacklist and the per-user table are given.
\<close>

definition fresh :: "int list \<Rightarrow> int set \<Rightarrow> users_table \<Rightarrow> state" where
  "fresh owners bl tbl =
     \<lparr>cfg_enabled = False, cfg_amount = 5, cfg_clear_usage = True,
      whitelist_commands = [], whitelist_cogs = [], whitelist_users = [],
      ignore_guilds = [], ignore_channels = [],
      cfg_message = PStr default_message, cfg_message_enabled = True,
      all_users = tbl, cache = [], first_run = True, task_running = False,
      owner_ids = owners, blacklist = bl, sent = [], dispatched = []\<rparr>"

text \<open>\<^verbatim>\<open>__init__\<close> of a new instance over the settings the host has persisted.\<close>

definition init :: "state \<Rightarrow> state" where
  "init s = s\<lparr>cache := [], first_run := True, task_running := False\<rparr>"

definition cog_load :: "state \<Rightarrow> state" where
  "cog_load s =
     (let s1 = (if cfg_clear_usage s then s\<lparr>task_running := True\<rparr> else s)
      in s1\<lparr>cache := all_users s1\<rparr>)"

definition cog_unload :: "state \<Rightarrow> state" where
  "cog_unload s = (if task_running s then s\<lparr>task_running := False\<rparr> else s)"

text \<open>
  \<^verbatim>\<open>config.user_from_id(user).clear()\<close> removes the user's data from the per-user table.
\<close>

definition user_clear :: "int \<Rightarrow> users_table \<Rightarrow> users_table" where
  "user_clear u tbl = AList.delete u tbl"

text \<open>
  One run of the \<^verbatim>\<open>clear_cache\<close> loop body. The loop over the keys of
  \<^verbatim>\<open>config.all_users()\<close> is a fold over the keys read before the loop starts.
\<close>

definition clear_cache :: "state \<Rightarrow> state" where
  "clear_cache s =
     (if first_run s then s\<lparr>first_run := False\<rparr>
      else if cfg_clear_usage s = False then s\<lparr>task_running := False\<rparr>
      else s\<lparr>all_users := fold user_clear (map fst (all_users s)) (all_users s)\<rparr>)"

section \<open>The management commands\<close>

text \<open>
  The commands that change settings. The confirmation texts they send back to the invoker
  are not part of the state; the read-only commands (the lists, \<^verbatim>\<open>showsettings\<close>,
  \<^verbatim>\<open>errblversion\<close>) change nothing and are left out.
\<close>

datatype ChannelOrGuild = AGuild int | AChannel int

datatype UserOrCommandCog = AUser int | ACog string | ACommand string

definition ignore_add :: "state \<Rightarrow> ChannelOrGuild \<Rightarrow> state" where
  "ignore_add s gc =
     (case gc of
        AGuild i \<Rightarrow>
          (if i \<in> set (ignore_guilds s) then s
           else s\<lparr>ignore_guilds := ignore_guilds s @ [i]\<rparr>)
      | AChannel i \<Rightarrow>
          (if i \<in> set (ignore_channels s) then s
           else s\<lparr>ignore_channels := ignore_channels s @ [i]\<rparr>))"

definition ignore_remove :: "state \<Rightarrow> ChannelOrGuild \<Rightarrow> state" where
  "ignore_remove s gc =
     (case gc of
        AGuild i \<Rightarrow>
          (if i \<in> set (ignore_guilds s)
           then s\<lparr>ignore_guilds := remove1 i (ignore_guilds s)\<rparr> else s)
      | AChannel i \<Rightarrow>
          (if i \<in> set (ignore_channels s)
           then s\<lparr>ignore_channels := remove1 i (ignore_channels s)\<rparr> else s))"

definition error_blacklist_enable :: "state \<Rightarrow> state" where
  "error_blacklist_enable s = s\<lparr>cfg_enabled := (cfg_enabled s = False)\<rparr>"

definition error_blacklist_clear_usage :: "state \<Rightarrow> bool \<Rightarrow> state" where
  "error_blacklist_clear_usage s toggle =
     (if cfg_clear_usage s = toggle then s else s\<lparr>cfg_clear_usage := toggle\<rparr>)"

text \<open>
  Modelled from the spec: the converter \<^verbatim>\<open>PositiveInt\<close> of \<^verbatim>\<open>utils.py\<close>, which is not
  among the sources. The amount command only accepts positive integers: the converter
  passes a positive integer on and refuses anything else, so that the command body does
  not run.
\<close>

definition PositiveInt :: "int \<Rightarrow> int option" where
  "PositiveInt n = (if 0 < n then Some n else None)"

definition error_blacklist_amount :: "state \<Rightarrow> int \<Rightarrow> state" where
  "error_blacklist_amount s amount =
     (if amount = 1 then s else s\<lparr>cfg_amount := amount\<rparr>)"

text \<open>
  \<^verbatim>\<open>_get_user_or_com\<close> picks the whitelist by the kind of its argument and takes the
  user's ID or the qualified name of the cog or command as the entry.
\<close>

definition whitelist_add :: "state \<Rightarrow> UserOrCommandCog \<Rightarrow> state" where
  "whitelist_add s x =
     (case x of
        AUser i \<Rightarrow>
          (if i \<in> set (whitelist_users s) then s
           else s\<lparr>whitelist_users := whitelist_users s @ [i]\<rparr>)
      | ACog n \<Rightarrow>
          (if n \<in> set (whitelist_cogs s) then s
           else s\<lparr>whitelist_cogs := whitelist_cogs s @ [n]\<rparr>)
      | ACommand n \<Rightarrow>
          (if n \<in> set (whitelist_commands s) then s
           else s\<lparr>whitelist_commands := whitelist_commands s @ [n]\<rparr>))"

definition whitelist_remove :: "state \<Rightarrow> UserOrCommandCog \<Rightarrow> state" where
  "whitelist_remove s x =
     (case x of
        AUser i \<Rightarrow>
          (if i \<in> set (whitelist_users s)
           then s\<lparr>whitelist_users := remove1 i (whitelist_users s)\<rparr> else s)
      | ACog n \<Rightarrow>
          (if n \<in> set (whitelist_cogs s)
           then s\<lparr>whitelist_cogs := remove1 n (whitelist_cogs s)\<rparr> else s)
      | ACommand n \<Rightarrow>
          (if n \<in> set (whitelist_commands s)
           then s\<lparr>whitelist_commands := remove1 n (whitelist_commands s)\<rparr> else s))"

text \<open>
  \<^verbatim>\<open>message_set\<close>: \<^verbatim>\<open>message\<close> is what the converter hands over, \<open>None\<close> for the reset
  value. \<^verbatim>\<open>message or _config_structure["message"]\<close> reads the top-level dictionary only
  when \<^verbatim>\<open>message\<close> is falsy, and the lookup of a missing key raises \<^verbatim>\<open>KeyError\<close>
  before anything is stored.
\<close>

definition message_set :: "state \<Rightarrow> string option \<Rightarrow> error option \<times> state" where
  "message_set s message =
     (case (case message of
              None \<Rightarrow> None
            | Some m \<Rightarrow> (if m = [] then None else Some (PStr m))) of
        Some actual \<Rightarrow> (None, s\<lparr>cfg_message := actual\<rparr>)
      | None \<Rightarrow>
          (case map_of config_structure ''message'' of
             None \<Rightarrow> (Some KeyError, s)
           | Some actual \<Rightarrow> (None, s\<lparr>cfg_message := actual\<rparr>)))"

definition message_enable :: "state \<Rightarrow> state" where
  "message_enable s = s\<lparr>cfg_message_enabled := (cfg_message_enabled s = False)\<rparr>"

text \<open>The check \<^verbatim>\<open>enabled\<close> that guards \<^verbatim>\<open>message_set\<close>.\<close>

definition enabled :: "state \<Rightarrow> bool" where
  "enabled s = cfg_message_enabled s"

section \<open>The cog as a transition system\<close>

datatype request =
    IgnoreAdd ChannelOrGuild
  | IgnoreRemove ChannelOrGuild
  | Enable
  | ClearUsage bool
  | Amount int
  | WhitelistAdd UserOrCommandCog
  | WhitelistRemove UserOrCommandCog
  | MessageSet "string option"
  | MessageEnable

text \<open>
  What happens to a loaded cog: a command error reaches the listener, a user invokes a
  management command, the daily task runs, or the cog is unloaded.
\<close>

datatype event =
    CommandError Context bool bool
  | Request int request
  | ClearCacheRun
  | CogUnload

fun run_request :: "state \<Rightarrow> request \<Rightarrow> state" where
  "run_request s (IgnoreAdd gc) = ignore_add s gc"
| "run_request s (IgnoreRemove gc) = ignore_remove s gc"
| "run_request s Enable = error_blacklist_enable s"
| "run_request s (ClearUsage toggle) = error_blacklist_clear_usage s toggle"
| "run_request s (Amount a) =
     (case PositiveInt a of None \<Rightarrow> s | Some n \<Rightarrow> error_blacklist_amount s n)"
| "run_request s (WhitelistAdd x) = whitelist_add s x"
| "run_request s (WhitelistRemove x) = whitelist_remove s x"
| "run_request s (MessageSet m) = (if enabled s then snd (message_set s m) else s)"
| "run_request s MessageEnable = message_enable s"

text \<open>\<^verbatim>\<open>cog_check\<close> lets only the bot's owners run the management commands.\<close>

fun step :: "state \<Rightarrow> event \<Rightarrow> state" where
  "step s (CommandError ctx is_invoke_error unhandled_by_cog) =
     snd (on_command_error s ctx is_invoke_error unhandled_by_cog)"
| "step s (Request u r) = (if is_owner s u then run_request s r else s)"
| "step s ClearCacheRun = clear_cache s"
| "step s CogUnload = cog_unload s"

text \<open>
  The states a bot can be in: it starts on the defaults, events happen, and the cog may
  be loaded anew over the persisted settings.
\<close>

inductive reachable :: "state \<Rightarrow> bool" where
  start: "reachable (cog_load (fresh owners bl tbl))"
| event: "reachable s \<Longrightarrow> reachable (step s ev)"
| reload: "reachable s \<Longrightarrow> reachable (cog_load (init s))"

section \<open>The listener's guards\<close>

text \<open>
  C7. When the enabled flag is false, the error handler does nothing for any command
  error: it raises nothing and the whole state (messages sent, counters, blacklist,
  events, settings) is the one it started from.
\<close>

theorem disabled_no_action:
  assumes "cfg_enabled s = False"
  shows "on_command_error s ctx e u = (None, s)"
  using assms by (simp add: on_command_error_def)

theorem disabled_no_action_witness:
  "cfg_enabled (cog_load (fresh [] {} [])) = False \<and>
   on_command_error (cog_load (fresh [] {} []))
     \<lparr>command = \<lparr>qualified_name = ''ping'', name = ''ping'',
                   cog = Some \<lparr>cog_name = ''Core'', has_error_handler = False\<rparr>,
                   has_on_error = False\<rparr>,
      author = 1, guild = None, channel = Some 10\<rparr> True False
   = (None, cog_load (fresh [] {} []))"
  using disabled_no_action [of "cog_load (fresh [] {} [])"]
  by (simp add: fresh_def cog_load_def)

text \<open>
  C8. For every command error whose author is an owner of the bot, the handler changes
  nothing: no counter, no warning message and no blacklisting, whatever the counters hold.
\<close>

theorem owner_no_action:
  assumes "is_owner s (author ctx)"
  shows "on_command_error s ctx e u = (None, s)"
  using assms by (simp add: on_command_error_def)

theorem owner_no_action_witness:
  "is_owner (error_blacklist_enable (cog_load (fresh [7] {} [])))
     (author \<lparr>command = \<lparr>qualified_name = ''ping'', name = ''ping'',
                   cog = Some \<lparr>cog_name = ''Core'', has_error_handler = False\<rparr>,
                   has_on_error = False\<rparr>,
      author = 7, guild = None, channel = Some 10\<rparr>) \<and>
   cfg_enabled (error_blacklist_enable (cog_load (fresh [7] {} []))) \<and>
   on_command_error (error_blacklist_enable (cog_load (fresh [7] {} [])))
     \<lparr>command = \<lparr>qualified_name = ''ping'', name = ''ping'',
                   cog = Some \<lparr>cog_name = ''Core'', has_error_handler = False\<rparr>,
                   has_on_error = False\<rparr>,
      author = 7, guild = None, channel = Some 10\<rparr> True False
   = (None, error_blacklist_enable (cog_load (fresh [7] {} [])))"
  using owner_no_action [of "error_blacklist_enable (cog_load (fresh [7] {} []))"
      "\<lparr>command = \<lparr>qualified_name = ''ping'', name = ''ping'',
                   cog = Some \<lparr>cog_name = ''Core'', has_error_handler = False\<rparr>,
                   has_on_error = False\<rparr>,
      author = 7, guild = None, channel = Some 10\<rparr>" True False]
  by (simp add: fresh_def cog_load_def error_blacklist_enable_def is_owner_def)



section \<open>The whitelists\<close>

text \<open>
  The command whitelist and the user whitelist are guards of the handler: an error of a
  whitelisted command, or of a whitelisted user, leaves the state as it is.
\<close>

lemma whitelisted_command_or_user:
  assumes "qualified_name (command ctx) \<in> set (whitelist_commands s) \<or>
           author ctx \<in> set (whitelist_users s)"
  shows "on_command_error s ctx e u = (None, s)"
  using assms by (auto simp add: on_command_error_def)

text \<open>
  C2 at the cog whitelist. The owner whitelists the cog \<open>Fun\<close>; a command of that cog then
  errors for user 1 in a direct message. The handler does not read the cog whitelist: it
  sends the warning and sets the user's counter for the command to 1.
\<close>

theorem cog_whitelist_not_consulted:
  "let s0 = whitelist_add (error_blacklist_enable (cog_load (fresh [] {} []))) (ACog ''Fun'');
       ctx = \<lparr>command = \<lparr>qualified_name = ''joke'', name = ''joke'',
                   cog = Some \<lparr>cog_name = ''Fun'', has_error_handler = False\<rparr>,
                   has_on_error = False\<rparr>,
              author = 1, guild = None, channel = Some 10\<rparr>;
       s1 = snd (on_command_error s0 ctx True False)
   in ''Fun'' \<in> set (whitelist_cogs s0) \<and>
      sent s0 = [] \<and> sent s1 = [(Some 10, PStr default_message)] \<and>
      counter s0 1 ''joke'' = 0 \<and> counter s1 1 ''joke'' = 1"
  by (simp add: Let_def fresh_def cog_load_def error_blacklist_enable_def whitelist_add_def
      on_command_error_def is_owner_def ignored_def count_error_def threshold_reached_def
      counter_def)

section \<open>The warning message\<close>

text \<open>
  C9. The message-set operation with the reset value \<open>None\<close> raises \<^verbatim>\<open>KeyError\<close> from
  the lookup of \<^verbatim>\<open>"message"\<close> in \<^verbatim>\<open>_config_structure\<close>, which has no such top-level key,
  and leaves the state, the stored warning message with it, unchanged. So the command never
  resets the stored message, whether its check lets the body run or not.
\<close>

theorem message_reset_raises:
  "message_set s None = (Some KeyError, s) \<and>
   cfg_message (run_request s (MessageSet None)) = cfg_message s"
  by (simp add: message_set_def config_structure_def)

section \<open>The cache and the persisted table\<close>

text \<open>
  The handler never writes the persisted per-user table, and \<^verbatim>\<open>cog_load\<close> copies the
  table into the cache.
\<close>

lemma handler_keeps_persisted:
  "all_users (snd (on_command_error s ctx e u)) = all_users s \<and>
   cache (cog_load s) = all_users s"
  by (simp add: on_command_error_def cog_load_def Let_def split: sum.splits bool.splits)

text \<open>
  C3 at the first counted error after loading. The per-user table registers
  \<^verbatim>\<open>errors\<close> for the commands and their counts, and cache and table agree after
  \<^verbatim>\<open>cog_load\<close>. After the error the cache holds the counter and the table is still
  empty: the counter is not mirrored.
\<close>

theorem cache_not_mirrored:
  "let s0 = error_blacklist_enable (cog_load (fresh [] {} []));
       ctx = \<lparr>command = \<lparr>qualified_name = ''ping'', name = ''ping'',
                   cog = Some \<lparr>cog_name = ''Core'', has_error_handler = False\<rparr>,
                   has_on_error = False\<rparr>,
              author = 1, guild = None, channel = Some 10\<rparr>;
       s1 = snd (on_command_error s0 ctx True False)
   in cache s0 = all_users s0 \<and> counter s1 1 ''ping'' = counter s0 1 ''ping'' + 1 \<and>
      cache s1 = [(1, [(''ping'', PInt 1)])] \<and> all_users s1 = [] \<and>
      cache s1 \<noteq> all_users s1"
  by (simp add: Let_def fresh_def cog_load_def error_blacklist_enable_def
      on_command_error_def is_owner_def ignored_def count_error_def threshold_reached_def
      counter_def)

section \<open>The counters\<close>

text \<open>
  A successful run of the counting block raises the counter of the user and name it was
  called for by one and leaves every other counter alone; no event of a loaded cog lowers
  a counter.
\<close>

lemma count_error_counter:
  assumes "count_error (cache s) a q = Inr (cache s')"
  shows "counter s' u c = (if u = a \<and> c = q then counter s u c + 1 else counter s u c)"
proof (cases "map_of (cache s) a")
  case None
  with assms have "cache s' = AList.update a [(q, PInt 1)] (cache s)"
    by (simp add: count_error_def)
  with None show ?thesis
    by (simp add: counter_def update_conv')
next
  case (Some d)
  show ?thesis
  proof (cases "map_of d q")
    case None
    with Some assms have "cache s' = AList.update a (AList.update q (PInt 1) d) (cache s)"
      by (simp add: count_error_def)
    with Some None show ?thesis
      by (simp add: counter_def update_conv')
  next
    case (Some v)
    note v = this
    from assms \<open>map_of (cache s) a = Some d\<close> v obtain v' where
      iv: "iadd_one v = Inr v'" and
      c': "cache s' = AList.update a (AList.update q v' d) (cache s)"
      by (auto simp add: count_error_def split: sum.splits)
    from iv have "(\<exists>n. v = PInt n \<and> v' = PInt (n + 1)) \<or>
                  (\<exists>b. v = PBool b \<and> v' = PInt ((if b then 1 else 0) + 1))"
      by (cases v) auto
    with c' v \<open>map_of (cache s) a = Some d\<close> show ?thesis
      by (auto simp add: counter_def update_conv')
  qed
qed

lemma handler_cache:
  "cache (snd (on_command_error s ctx e ub)) = cache s \<or>
   count_error (cache s) (author ctx) (qualified_name (command ctx)) =
     Inr (cache (snd (on_command_error s ctx e ub)))"
  by (simp add: on_command_error_def Let_def split: sum.splits bool.splits)

lemma counter_cong: "cache s' = cache s \<Longrightarrow> counter s' u c = counter s u c"
  by (simp add: counter_def)

lemma handler_counter:
  "counter (snd (on_command_error s ctx e ub)) u c = counter s u c \<or>
   (u = author ctx \<and> c = qualified_name (command ctx) \<and>
    counter (snd (on_command_error s ctx e ub)) u c = counter s u c + 1)"
  using handler_cache [of s ctx e ub]
proof
  assume "cache (snd (on_command_error s ctx e ub)) = cache s"
  then have "counter (snd (on_command_error s ctx e ub)) u c = counter s u c"
    by (rule counter_cong)
  then show ?thesis by (rule disjI1)
next
  assume "count_error (cache s) (author ctx) (qualified_name (command ctx)) =
     Inr (cache (snd (on_command_error s ctx e ub)))"
  then have eq: "counter (snd (on_command_error s ctx e ub)) u c =
      (if u = author ctx \<and> c = qualified_name (command ctx)
       then counter s u c + 1 else counter s u c)"
    by (rule count_error_counter)
  show ?thesis
  proof (cases "u = author ctx \<and> c = qualified_name (command ctx)")
    case True
    with eq show ?thesis by simp
  next
    case False
    with eq show ?thesis by simp
  qed
qed

lemma cache_run_request: "cache (run_request s r) = cache s"
  by (cases r)
    (simp_all add: ignore_add_def ignore_remove_def error_blacklist_enable_def
      error_blacklist_clear_usage_def error_blacklist_amount_def PositiveInt_def
      whitelist_add_def whitelist_remove_def message_set_def message_enable_def
      split: ChannelOrGuild.splits UserOrCommandCog.splits option.splits)

lemma cache_clear_cache: "cache (clear_cache s) = cache s"
  by (simp add: clear_cache_def)

lemma cache_cog_unload: "cache (cog_unload s) = cache s"
  by (simp add: cog_unload_def)

lemma step_counter: "counter s u c \<le> counter (step s ev) u c"
proof (cases ev)
  case (CommandError x e' ub')
  from handler_counter [of s x e' ub' u c]
  have "counter s u c \<le> counter (snd (on_command_error s x e' ub')) u c"
    by linarith
  with CommandError show ?thesis by simp
next
  case (Request w r)
  have "counter (step s (Request w r)) u c = counter s u c"
    by (rule counter_cong) (simp add: cache_run_request)
  with Request show ?thesis by simp
next
  case ClearCacheRun
  have "counter (step s ClearCacheRun) u c = counter s u c"
    by (rule counter_cong) (simp add: cache_clear_cache)
  with ClearCacheRun show ?thesis by simp
next
  case CogUnload
  have "counter (step s CogUnload) u c = counter s u c"
    by (rule counter_cong) (simp add: cache_cog_unload)
  with CogUnload show ?thesis by simp
qed

text \<open>
  C5 at a reload. User 1 has one counted error for \<open>ping\<close>; the user is not blacklisted
  and the daily task has not run. The cog is then loaded anew: the cache is read from the
  per-user table, which the handler never wrote, and the counter is back at 0.
\<close>

theorem reload_loses_counter:
  "let s0 = error_blacklist_enable (cog_load (fresh [] {} []));
       ctx = \<lparr>command = \<lparr>qualified_name = ''ping'', name = ''ping'',
                   cog = Some \<lparr>cog_name = ''Core'', has_error_handler = False\<rparr>,
                   has_on_error = False\<rparr>,
              author = 1, guild = None, channel = Some 10\<rparr>;
       s1 = snd (on_command_error s0 ctx True False);
       s2 = cog_load (init s1)
   in counter s0 1 ''ping'' = 0 \<and> counter s1 1 ''ping'' = 1 \<and> counter s2 1 ''ping'' = 0 \<and>
      blacklist s1 = {} \<and> blacklist s2 = {} \<and> all_users s1 = [] \<and> all_users s2 = [] \<and>
      first_run s1 \<and> cfg_amount s2 = 5"
  by (simp add: Let_def fresh_def cog_load_def init_def error_blacklist_enable_def
      on_command_error_def is_owner_def ignored_def count_error_def threshold_reached_def
      counter_def)

section \<open>The daily task\<close>

text \<open>
  Clearing every user whose key was read before the loop leaves an empty table.
\<close>

lemma fold_user_clear_subset:
  "fst ` set tbl \<subseteq> set ks \<Longrightarrow> fold user_clear ks tbl = []"
proof (induction ks arbitrary: tbl)
  case Nil
  then show ?case by simp
next
  case (Cons k ks)
  have "fst ` set (user_clear k tbl) \<subseteq> set ks"
    using Cons.prems by (auto simp add: user_clear_def AList.delete_eq)
  then show ?case using Cons.IH by simp
qed

lemma fold_user_clear: "fold user_clear (map fst tbl) tbl = []"
  by (rule fold_user_clear_subset) simp

text \<open>
  C4, as the code has it. The first run of the daily task only resets the first-run
  marker, whatever the flag. A later run with the clear-usage flag enabled empties the
  persisted per-user table and changes nothing else outside the in-memory mapping; a later
  run with the flag disabled only cancels the task, so it changes no user data.
\<close>

theorem clear_cache_run:
  "(first_run s \<longrightarrow> clear_cache s = s\<lparr>first_run := False\<rparr>) \<and>
   (first_run s = False \<and> cfg_clear_usage s \<longrightarrow>
      (clear_cache s)\<lparr>cache := c\<rparr> = s\<lparr>all_users := [], cache := c\<rparr>) \<and>
   (first_run s = False \<and> cfg_clear_usage s = False \<longrightarrow>
      clear_cache s = s\<lparr>task_running := False\<rparr>)"
  by (simp add: clear_cache_def fold_user_clear)

theorem clear_cache_run_witness:
  "let tbl = [(1, [(''errors'', PDict [(''ping'', PInt 3)])])];
       sA = cog_load (fresh [] {} tbl);
       sB = clear_cache sA;
       sC = error_blacklist_clear_usage sB False
   in first_run sA \<and> cfg_clear_usage sA \<and> clear_cache sA = sA\<lparr>first_run := False\<rparr> \<and>
      first_run sB = False \<and> cfg_clear_usage sB \<and> all_users sB = tbl \<and>
      (clear_cache sB)\<lparr>cache := []\<rparr> = sB\<lparr>all_users := [], cache := []\<rparr> \<and>
      all_users (clear_cache sB) = [] \<and> task_running (clear_cache sB) \<and>
      first_run sC = False \<and> cfg_clear_usage sC = False \<and> task_running sC \<and>
      clear_cache sC = sC\<lparr>task_running := False\<rparr> \<and>
      all_users (clear_cache sC) = tbl \<and> cache (clear_cache sC) = tbl"
proof -
  define tbl :: users_table where "tbl = [(1, [(''errors'', PDict [(''ping'', PInt 3)])])]"
  define sA where "sA = cog_load (fresh [] {} tbl)"
  define sB where "sB = clear_cache sA"
  define sC where "sC = error_blacklist_clear_usage sB False"
  have a: "first_run sA \<and> cfg_clear_usage sA"
    by (simp add: sA_def fresh_def cog_load_def)
  have b: "first_run sB = False \<and> cfg_clear_usage sB \<and> all_users sB = tbl \<and>
           task_running sB \<and> cache sB = tbl"
    by (simp add: sB_def sA_def fresh_def cog_load_def clear_cache_def)
  have c: "first_run sC = False \<and> cfg_clear_usage sC = False \<and> all_users sC = tbl \<and>
           task_running sC \<and> cache sC = tbl"
    using b by (simp add: sC_def error_blacklist_clear_usage_def)
  from clear_cache_run [of sA] a
  have ra: "clear_cache sA = sA\<lparr>first_run := False\<rparr>" by blast
  from clear_cache_run [of sB "[]"] b
  have rb: "(clear_cache sB)\<lparr>cache := []\<rparr> = sB\<lparr>all_users := [], cache := []\<rparr>" by blast
  from clear_cache_run [of sC] c
  have rc: "clear_cache sC = sC\<lparr>task_running := False\<rparr>" by blast
  from rb have "all_users ((clear_cache sB)\<lparr>cache := []\<rparr>) =
                all_users (sB\<lparr>all_users := [], cache := []\<rparr>)"
    by (rule arg_cong)
  then have rb1: "all_users (clear_cache sB) = []" by simp
  from rb have "task_running ((clear_cache sB)\<lparr>cache := []\<rparr>) =
                task_running (sB\<lparr>all_users := [], cache := []\<rparr>)"
    by (rule arg_cong)
  with b have rb2: "task_running (clear_cache sB)" by simp
  from rc c have rc1: "all_users (clear_cache sC) = tbl \<and> cache (clear_cache sC) = tbl"
    by simp
  show ?thesis
    unfolding Let_def tbl_def [symmetric] sA_def [symmetric] sB_def [symmetric]
      sC_def [symmetric]
    using a b c ra [folded sB_def] rb rc rb1 rb2 rc1 by simp
qed

text \<open>
  C4 as stated fails at the first run: the clear-usage flag is enabled, and the run leaves
  the persisted table and the in-memory mapping with the entries they had.
\<close>

theorem first_run_clears_nothing:
  "let s = cog_load (fresh [] {} [(1, [(''errors'', PDict [(''ping'', PInt 3)])])]);
       s' = clear_cache s
   in cfg_clear_usage s \<and>
      all_users s' = [(1, [(''errors'', PDict [(''ping'', PInt 3)])])] \<and>
      cache s' = [(1, [(''errors'', PDict [(''ping'', PInt 3)])])] \<and>
      all_users s' \<noteq> [] \<and> cache s' \<noteq> []"
  by (simp add: Let_def fresh_def cog_load_def clear_cache_def)

section \<open>The threshold\<close>

text \<open>
  C1 at a subcommand. The owner enables the watcher and sets the threshold to 2; the
  subcommand with qualified name \<open>a b\<close> and name \<open>b\<close> then errors twice for user 1. The
  errors are counted under the qualified name, the threshold test reads the entry of the
  name: the counter reaches the threshold, and the user is not blacklisted and no event is
  dispatched.
\<close>

theorem subcommand_never_blacklisted:
  "let ctx = \<lparr>command = \<lparr>qualified_name = ''a b'', name = ''b'',
                   cog = Some \<lparr>cog_name = ''A'', has_error_handler = False\<rparr>,
                   has_on_error = False\<rparr>,
              author = 1, guild = None, channel = Some 10\<rparr>;
       s0 = error_blacklist_amount (error_blacklist_enable (cog_load (fresh [] {} []))) 2;
       s1 = snd (on_command_error s0 ctx True False);
       s2 = snd (on_command_error s1 ctx True False)
   in counter s2 1 ''a b'' = 2 \<and> cfg_amount s2 = 2 \<and> 1 \<notin> blacklist s2 \<and> dispatched s2 = []"
proof -
  define ctx where "ctx = \<lparr>command = \<lparr>qualified_name = ''a b'', name = ''b'',
                   cog = Some \<lparr>cog_name = ''A'', has_error_handler = False\<rparr>,
                   has_on_error = False\<rparr>,
              author = 1, guild = None, channel = Some 10\<rparr>"
  define s0 where
    "s0 = error_blacklist_amount (error_blacklist_enable (cog_load (fresh [] {} []))) 2"
  define s1 where
    "s1 = s0\<lparr>sent := [(Some 10, PStr default_message)],
              cache := [(1, [(''a b'', PInt 1)])]\<rparr>"
  define s2 where
    "s2 = s0\<lparr>sent := [(Some 10, PStr default_message), (Some 10, PStr default_message)],
              cache := [(1, [(''a b'', PInt 2)])]\<rparr>"
  have e1: "snd (on_command_error s0 ctx True False) = s1"
    by (simp add: s0_def s1_def ctx_def fresh_def cog_load_def error_blacklist_enable_def
        error_blacklist_amount_def on_command_error_def
        is_owner_def ignored_def count_error_def threshold_reached_def)
  have e2: "snd (on_command_error s1 ctx True False) = s2"
    by (simp add: s0_def s1_def s2_def ctx_def fresh_def cog_load_def
        error_blacklist_enable_def error_blacklist_amount_def on_command_error_def
        is_owner_def ignored_def count_error_def threshold_reached_def)
  have e3: "counter s2 1 ''a b'' = 2 \<and> cfg_amount s2 = 2 \<and> 1 \<notin> blacklist s2 \<and>
            dispatched s2 = []"
    by (simp add: s0_def s2_def fresh_def cog_load_def error_blacklist_enable_def
        error_blacklist_amount_def counter_def)
  show ?thesis
    unfolding Let_def ctx_def [symmetric] s0_def [symmetric] e1 e2 by (rule e3)
qed

section \<open>The stored threshold\<close>

text \<open>
  The threshold is written by the amount command only, and only with a value that the
  converter let through and that is not 1.
\<close>

lemma handler_amount: "cfg_amount (snd (on_command_error s ctx e u)) = cfg_amount s"
  by (simp add: on_command_error_def Let_def split: sum.splits bool.splits)

lemma run_request_amount:
  assumes "2 \<le> cfg_amount s"
  shows "2 \<le> cfg_amount (run_request s r)"
  using assms
  by (cases r)
    (simp_all add: ignore_add_def ignore_remove_def error_blacklist_enable_def
      error_blacklist_clear_usage_def error_blacklist_amount_def PositiveInt_def
      whitelist_add_def whitelist_remove_def message_set_def message_enable_def
      split: ChannelOrGuild.splits UserOrCommandCog.splits option.splits)

lemma step_amount:
  assumes "2 \<le> cfg_amount s"
  shows "2 \<le> cfg_amount (step s ev)"
proof (cases ev)
  case (CommandError x e' ub')
  with assms show ?thesis by (simp add: handler_amount)
next
  case (Request w r)
  with assms show ?thesis by (simp add: run_request_amount)
next
  case ClearCacheRun
  with assms show ?thesis by (simp add: clear_cache_def)
next
  case CogUnload
  with assms show ?thesis by (simp add: cog_unload_def)
qed

lemma reachable_amount: "reachable s \<Longrightarrow> 2 \<le> cfg_amount s"
proof (induction rule: reachable.induct)
  case (start owners bl tbl)
  show ?case by (simp add: fresh_def cog_load_def)
next
  case (event s ev)
  then show ?case by (simp add: step_amount)
next
  case (reload s)
  then show ?case by (simp add: cog_load_def init_def Let_def)
qed

text \<open>
  The threshold test succeeds only on an entry that is at least the threshold, so a user
  is added to the blacklist only when the counter under the command's name has reached it.
\<close>

lemma threshold_counter:
  assumes "threshold_reached c a nm amt = Inr True" and "cache s' = c"
  shows "amt \<le> counter s' a nm"
proof -
  from assms(1) obtain d am where d: "map_of c a = Some d" and am: "map_of d nm = Some am"
    and t: "truthy am" and g: "ge_int am amt = Inr True"
    by (auto simp add: threshold_reached_def split: option.splits if_splits)
  from g t have "(\<exists>n. am = PInt n \<and> amt \<le> n) \<or> (am = PBool True \<and> amt \<le> 1)"
    by (cases am) (auto split: if_splits)
  with d am assms(2) show ?thesis
    by (auto simp add: counter_def)
qed

lemma handler_blacklist:
  assumes "blacklist (snd (on_command_error s ctx e u)) \<noteq> blacklist s"
  shows "threshold_reached (cache (snd (on_command_error s ctx e u))) (author ctx)
           (name (command ctx)) (cfg_amount s) = Inr True"
  using assms
  by (auto simp add: on_command_error_def Let_def split: sum.splits bool.splits if_splits)

lemma blacklisted_at_threshold:
  assumes "blacklist (snd (on_command_error s ctx e u)) \<noteq> blacklist s"
  shows "cfg_amount s \<le> counter (snd (on_command_error s ctx e u)) (author ctx)
           (name (command ctx))"
  using handler_blacklist [OF assms] by (rule threshold_counter) simp

lemma first_error_not_blacklisted:
  assumes "2 \<le> cfg_amount s" and "\<forall>c. counter s (author ctx) c = 0"
  shows "blacklist (snd (on_command_error s ctx e u)) = blacklist s"
proof (rule ccontr)
  assume "blacklist (snd (on_command_error s ctx e u)) \<noteq> blacklist s"
  then have "cfg_amount s \<le> counter (snd (on_command_error s ctx e u)) (author ctx)
           (name (command ctx))"
    by (rule blacklisted_at_threshold)
  moreover from handler_counter [of s ctx e u "author ctx" "name (command ctx)"] assms(2)
  have "counter (snd (on_command_error s ctx e u)) (author ctx) (name (command ctx)) \<le> 1"
    by auto
  ultimately show False using assms(1) by linarith
qed

text \<open>
  C10. The stored threshold is always at least 2. Its default is 5; the amount command
  only accepts positive integers, leaves the state as it is for the value 1 and stores any
  other accepted value; so in every reachable state the threshold is 2 or more, and the
  first counted error of a user (one with no counter above 0) never changes the blacklist.
\<close>

theorem threshold_at_least_two:
  "cfg_amount (cog_load (fresh owners bl tbl)) = 5 \<and>
   global_default ''amount'' = Some (PInt 5) \<and>
   (PositiveInt a = Some n \<longrightarrow> n = a \<and> 0 < n) \<and>
   error_blacklist_amount s 1 = s \<and>
   (PositiveInt a = Some n \<and> n \<noteq> 1 \<longrightarrow>
      cfg_amount (error_blacklist_amount s n) = n \<and> 2 \<le> n) \<and>
   (reachable s \<longrightarrow> 2 \<le> cfg_amount s) \<and>
   (reachable s \<and> (\<forall>c. counter s (author ctx) c = 0) \<longrightarrow>
      blacklist (snd (on_command_error s ctx e u)) = blacklist s)"
proof (intro conjI impI)
  show "cfg_amount (cog_load (fresh owners bl tbl)) = 5"
    by (simp add: fresh_def cog_load_def)
  show "global_default ''amount'' = Some (PInt 5)"
    by (simp add: global_default_def config_structure_def)
  show "error_blacklist_amount s 1 = s"
    by (simp add: error_blacklist_amount_def)
next
  assume "PositiveInt a = Some n"
  then show "n = a" and "0 < n" by (simp_all add: PositiveInt_def split: if_splits)
next
  assume h: "PositiveInt a = Some n \<and> n \<noteq> 1"
  then show "cfg_amount (error_blacklist_amount s n) = n"
    by (simp add: error_blacklist_amount_def)
  from h show "2 \<le> n" by (simp add: PositiveInt_def split: if_splits)
next
  assume "reachable s"
  then show "2 \<le> cfg_amount s" by (rule reachable_amount)
next
  assume h: "reachable s \<and> (\<forall>c. counter s (author ctx) c = 0)"
  then have "2 \<le> cfg_amount s" by (simp add: reachable_amount)
  with h show "blacklist (snd (on_command_error s ctx e u)) = blacklist s"
    by (simp add: first_error_not_blacklisted)
qed

theorem threshold_at_least_two_witness:
  "let s = step (step (cog_load (fresh [7] {} [])) (Request 7 Enable)) (Request 7 (Amount 2));
       ctx = \<lparr>command = \<lparr>qualified_name = ''ping'', name = ''ping'',
                   cog = Some \<lparr>cog_name = ''Core'', has_error_handler = False\<rparr>,
                   has_on_error = False\<rparr>,
              author = 1, guild = None, channel = Some 10\<rparr>;
       s' = snd (on_command_error s ctx True False)
   in PositiveInt 2 = Some 2 \<and> reachable s \<and> cfg_enabled s \<and> cfg_amount s = 2 \<and>
      (\<forall>c. counter s (author ctx) c = 0) \<and> counter s' 1 ''ping'' = 1 \<and>
      blacklist s' = blacklist s"
proof -
  define s where
    "s = step (step (cog_load (fresh [7] {} [])) (Request 7 Enable)) (Request 7 (Amount 2))"
  define ctx where "ctx = \<lparr>command = \<lparr>qualified_name = ''ping'', name = ''ping'',
                   cog = Some \<lparr>cog_name = ''Core'', has_error_handler = False\<rparr>,
                   has_on_error = False\<rparr>,
              author = 1, guild = None, channel = Some (10::int)\<rparr>"
  have r: "reachable s"
    unfolding s_def by (intro reachable.event reachable.start)
  have p: "PositiveInt 2 = Some 2"
    by (simp add: PositiveInt_def)
  have v: "cfg_enabled s \<and> cfg_amount s = 2 \<and> cache s = []"
    by (simp add: s_def p fresh_def cog_load_def is_owner_def error_blacklist_enable_def
        error_blacklist_amount_def)
  then have z: "\<forall>c. counter s (author ctx) c = 0"
    by (simp add: counter_def)
  from threshold_at_least_two [where s = s and ctx = ctx and e = True and u = False] r z
  have b: "blacklist (snd (on_command_error s ctx True False)) = blacklist s"
    by blast
  have c: "counter (snd (on_command_error s ctx True False)) 1 ''ping'' = 1"
    by (simp add: s_def p ctx_def fresh_def cog_load_def is_owner_def
        error_blacklist_enable_def error_blacklist_amount_def on_command_error_def
        ignored_def count_error_def threshold_reached_def counter_def)
  show ?thesis
    unfolding Let_def s_def [symmetric] ctx_def [symmetric]
    using p r v z b c by simp
qed

end
